theory Spec2Isabelle
  imports Complex_Main
begin

section \<open>Python values, exceptions and the operations the bot applies to them\<close>

text \<open>
  The bot in \<^verbatim>\<open>app.py\<close> is a script around four outside services: the NASA HTTP
  APIs, a translator, a Supabase table and the Telegram bot with its job queue. The
  embedding keeps the control flow of every function of the script. What the outside
  answers at each call is a field of the record \<open>env\<close>; what the script changes (the
  table, the job queue, the error log, the calls issued to the bot) is the record
  \<open>world\<close>, passed through every function and returned updated. An exception is a value
  of type \<open>exn\<close>; every \<^verbatim>\<open>try/except\<close> of the script is a case split on \<open>Inl\<close>.

  A Python \<^verbatim>\<open>str\<close> is modelled by the list of its UTF-8 bytes, so the accented letters
  and the emoji of the script's messages are written as byte sequences.
\<close>

datatype exn =
    KeyError | IndexError | TypeError | AttributeError | ValueError | OverflowError
  | RequestException | JSONDecodeError | TranslationError | StoreError | TransportError

text \<open>A Python float: a finite value (every finite double is a rational), or one of the
  three special values.\<close>

datatype pyfloat = Finite rat | PosInf | NegInf | NaN

text \<open>The objects \<^verbatim>\<open>res.json()\<close> can return. A dict is an association list whose first
  binding of a key is the entry of that key.\<close>

datatype pyval =
    PNone
  | PBool bool
  | PInt int
  | PFloat pyfloat
  | PStr string
  | PList "pyval list"
  | PDict "(string \<times> pyval) list"

text \<open>Sequencing of steps that may raise.\<close>

definition and_then :: "exn + 'a \<Rightarrow> ('a \<Rightarrow> exn + 'b) \<Rightarrow> exn + 'b" where
  "and_then m f = (case m of Inl e \<Rightarrow> Inl e | Inr x \<Rightarrow> f x)"

text \<open>Truth value of an object, as \<^verbatim>\<open>if x:\<close> and \<^verbatim>\<open>not x\<close> test it.\<close>

fun truthy :: "pyval \<Rightarrow> bool" where
  "truthy PNone = False"
| "truthy (PBool b) = b"
| "truthy (PInt i) = (i \<noteq> 0)"
| "truthy (PFloat f) = (f \<noteq> Finite 0)"
| "truthy (PStr s) = (s \<noteq> [])"
| "truthy (PList xs) = (xs \<noteq> [])"
| "truthy (PDict kvs) = (kvs \<noteq> [])"

text \<open>The characters of a \<^verbatim>\<open>str\<close>: a UTF-8 continuation byte (\<open>10xxxxxx\<close>) belongs to the
  character begun before it.\<close>

definition is_cont :: "char \<Rightarrow> bool" where
  "is_cont c = (128 \<le> (of_char c :: nat) \<and> (of_char c :: nat) < 192)"

fun code_points :: "string list \<Rightarrow> string \<Rightarrow> string list" where
  "code_points acc [] = acc"
| "code_points acc (c # cs) =
     (if is_cont c \<and> acc \<noteq> [] then code_points (butlast acc @ [last acc @ [c]]) cs
      else code_points (acc @ [[c]]) cs)"

text \<open>\<^verbatim>\<open>x[key]\<close> with a \<^verbatim>\<open>str\<close> key: only a dict has such an item.\<close>

fun getitem :: "pyval \<Rightarrow> string \<Rightarrow> exn + pyval" where
  "getitem (PDict kvs) k = (case map_of kvs k of None \<Rightarrow> Inl KeyError | Some v \<Rightarrow> Inr v)"
| "getitem _ k = Inl TypeError"

text \<open>\<^verbatim>\<open>x[0]\<close>: the first element of a list, the first character of a \<^verbatim>\<open>str\<close>; a dict
  from JSON has no key \<open>0\<close>.\<close>

fun getitem0 :: "pyval \<Rightarrow> exn + pyval" where
  "getitem0 (PList xs) = (case xs of [] \<Rightarrow> Inl IndexError | x # _ \<Rightarrow> Inr x)"
| "getitem0 (PStr s) =
     (case code_points [] s of [] \<Rightarrow> Inl IndexError | c # _ \<Rightarrow> Inr (PStr c))"
| "getitem0 (PDict kvs) = Inl KeyError"
| "getitem0 _ = Inl TypeError"

text \<open>\<^verbatim>\<open>x.get(key, default)\<close>: a method of dicts only.\<close>

fun dict_get :: "pyval \<Rightarrow> string \<Rightarrow> pyval \<Rightarrow> exn + pyval" where
  "dict_get (PDict kvs) k d = (case map_of kvs k of None \<Rightarrow> Inr d | Some v \<Rightarrow> Inr v)"
| "dict_get _ k d = Inl AttributeError"

text \<open>\<^verbatim>\<open>random.choice(seq)\<close> is \<^verbatim>\<open>seq[randbelow(len(seq))]\<close>; \<open>r\<close> is the number drawn,
  reduced modulo the length.\<close>

fun choice :: "nat \<Rightarrow> pyval \<Rightarrow> exn + pyval" where
  "choice r (PList xs) = (if xs = [] then Inl IndexError else Inr (xs ! (r mod length xs)))"
| "choice r (PStr s) =
     (let cs = code_points [] s
      in if cs = [] then Inl IndexError else Inr (PStr (cs ! (r mod length cs))))"
| "choice r (PDict kvs) = (if kvs = [] then Inl IndexError else Inl KeyError)"
| "choice r _ = Inl TypeError"

subsection \<open>Printing integers\<close>

fun str_nat :: "nat \<Rightarrow> string" where
  "str_nat n =
     (if n < 10 then [''0123456789'' ! n]
      else str_nat (n div 10) @ [''0123456789'' ! (n mod 10)])"

declare str_nat.simps [simp del]

text \<open>\<^verbatim>\<open>str(i)\<close> of an \<^verbatim>\<open>int\<close>.\<close>

definition str_int :: "int \<Rightarrow> string" where
  "str_int i = (if i < 0 then CHR ''-'' # str_nat (nat (- i)) else str_nat (nat i))"

text \<open>The format \<^verbatim>\<open>{:,}\<close>: a comma before every group of three digits, counted from
  the right. \<open>commas_rev\<close> works on the reversed digits.\<close>

fun commas_rev :: "string \<Rightarrow> string" where
  "commas_rev (a # b # c # d # ds) = a # b # c # CHR '','' # commas_rev (d # ds)"
| "commas_rev ds = ds"

definition format_commas :: "int \<Rightarrow> string" where
  "format_commas i =
     (if i < 0 then CHR ''-'' # rev (commas_rev (rev (str_nat (nat (- i)))))
      else rev (commas_rev (rev (str_nat (nat i)))))"

text \<open>\<^verbatim>\<open>int(f)\<close> of a float truncates towards zero, and raises on the special values.\<close>

fun py_int :: "pyfloat \<Rightarrow> exn + int" where
  "py_int (Finite q) = Inr (if 0 \<le> q then \<lfloor>q\<rfloor> else \<lceil>q\<rceil>)"
| "py_int PosInf = Inl OverflowError"
| "py_int NegInf = Inl OverflowError"
| "py_int NaN = Inl ValueError"

section \<open>The outside world\<close>

record response =
  status_code :: int
  body :: "pyval option"

text \<open>
  What the outside answers during one run of a handler. \<open>None\<close> stands for a call that
  raises.
  \<^item> \<open>today\<close> is \<^verbatim>\<open>datetime.now().strftime("%Y-%m-%d")\<close>, \<open>api_key\<close> the NASA key;
  \<^item> \<open>http_get url\<close> is \<^verbatim>\<open>requests.get(url)\<close>, and \<open>body\<close> of the response its
    \<^verbatim>\<open>.json()\<close>;
  \<^item> \<open>translate\<close> is \<^verbatim>\<open>GoogleTranslator(source='en', target='pt').translate\<close>;
  \<^item> \<open>rnd_asteroid\<close>, \<open>rnd_keyword\<close>, \<open>rnd_item\<close> are the numbers drawn by the three
    calls of \<^verbatim>\<open>random.choice\<close>;
  \<^item> \<open>parse_float\<close> and \<open>int_to_float\<close> are \<^verbatim>\<open>float\<close> on a \<^verbatim>\<open>str\<close> and on an
    \<^verbatim>\<open>int\<close> (parsing and rounding to a double are not modelled), \<open>repr\<close> is
    \<^verbatim>\<open>str\<close> on floats, lists and dicts;
  \<^item> \<open>insert_ok\<close>, \<open>delete_ok\<close>, \<open>select_ok\<close> say whether the Supabase request succeeds;
  \<^item> \<open>send_ok\<close> says whether \<^verbatim>\<open>bot.send_photo\<close>/\<^verbatim>\<open>bot.send_message\<close> succeeds,
    \<open>reply_ok\<close> whether \<^verbatim>\<open>update.message.reply_text\<close> does.
\<close>

record env =
  today :: string
  api_key :: string
  http_get :: "string \<Rightarrow> response option"
  translate :: "string \<Rightarrow> string option"
  rnd_asteroid :: nat
  rnd_keyword :: nat
  rnd_item :: nat
  parse_float :: "string \<Rightarrow> pyfloat option"
  int_to_float :: "int \<Rightarrow> pyfloat option"
  repr :: "pyval \<Rightarrow> string"
  insert_ok :: bool
  delete_ok :: bool
  select_ok :: bool
  send_ok :: bool
  reply_ok :: bool

text \<open>An entry of the error log: a fixed text, or a fixed prefix followed by the text of
  the exception caught.\<close>

datatype log_entry = ErrorEntry string | ErrorExn string exn

text \<open>A call issued to the Telegram bot, recorded whether or not the transport then
  fails.\<close>

datatype bot_call =
    SendPhoto int pyval string
  | SendMessage int string
  | ReplyText int string

datatype callback = SendPeriodicMessage

record time_of_day =
  hour :: nat
  minute :: nat
  utc_offset_hours :: int

text \<open>A job of the queue, with the arguments \<^verbatim>\<open>run_daily\<close> was given; \<open>job_days\<close> is the
  default of \<^verbatim>\<open>run_daily\<close>, every day of the week.\<close>

record job =
  job_callback :: callback
  job_time :: time_of_day
  job_days :: "nat list"
  job_data :: int
  job_name :: string

text \<open>\<open>store\<close> holds the \<^verbatim>\<open>chat_id\<close> of every row of the table \<^verbatim>\<open>subscribers\<close>;
  \<open>job_queue\<close> is \<^verbatim>\<open>context.job_queue\<close>, \<open>None\<close> when the job queue is not installed.\<close>

record world =
  store :: "int list"
  job_queue :: "job list option"
  log :: "log_entry list"
  calls :: "bot_call list"

definition log_error :: "log_entry \<Rightarrow> world \<Rightarrow> world" where
  "log_error l w = w\<lparr>log := log w @ [l]\<rparr>"

section \<open>The script\<close>

subsection \<open>Texts\<close>

text \<open>The letters outside ASCII that the script's texts use, as UTF-8 bytes.\<close>

definition a_acute :: string where "a_acute = [CHR 0xC3, CHR 0xA1]"
definition a_grave :: string where "a_grave = [CHR 0xC3, CHR 0xA0]"
definition a_circ :: string where "a_circ = [CHR 0xC3, CHR 0xA2]"
definition a_tilde :: string where "a_tilde = [CHR 0xC3, CHR 0xA3]"
definition A_tilde :: string where "A_tilde = [CHR 0xC3, CHR 0x83]"
definition c_cedil :: string where "c_cedil = [CHR 0xC3, CHR 0xA7]"
definition e_acute :: string where "e_acute = [CHR 0xC3, CHR 0xA9]"
definition e_circ :: string where "e_circ = [CHR 0xC3, CHR 0xAA]"
definition i_acute :: string where "i_acute = [CHR 0xC3, CHR 0xAD]"
definition o_acute :: string where "o_acute = [CHR 0xC3, CHR 0xB3]"
definition o_tilde :: string where "o_tilde = [CHR 0xC3, CHR 0xB5]"
definition emoji_earth :: string where "emoji_earth = [CHR 0xF0, CHR 0x9F, CHR 0x8C, CHR 0x8D]"
definition emoji_star :: string where "emoji_star = [CHR 0xF0, CHR 0x9F, CHR 0x8C, CHR 0xA0]"
definition emoji_sleep :: string where "emoji_sleep = [CHR 0xF0, CHR 0x9F, CHR 0x98, CHR 0xB4]"

text \<open>The three fixed texts \<^verbatim>\<open>get_asteroid_message\<close> returns without asteroid data.\<close>

definition msg_nasa_error :: string where
  "msg_nasa_error = ''Erro ao buscar dados da NASA.''"

definition msg_no_asteroids :: string where
  "msg_no_asteroids = ''Nenhum asteroide pr'' @ o_acute @ ''ximo hoje '' @ emoji_sleep"

definition msg_processing_error :: string where
  "msg_processing_error = ''Erro ao processar dados do asteroide.''"

text \<open>The note \<^verbatim>\<open>send_message\<close> appends to the caption of a photo: the image has no
  direct relation to the asteroid, it is a random picture of space.\<close>

definition disclaimer :: string where
  "disclaimer = ''\<newline>\<newline>*Nota:* A imagem enviada N'' @ A_tilde @ ''O tem rela'' @ c_cedil @ a_tilde
     @ ''o direta com o asteroide, '' @ e_acute @ '' s'' @ o_acute @ '' uma foto aleat''
     @ o_acute @ ''ria do espa'' @ c_cedil @ ''o.''"

text \<open>The replies of the two handlers.\<close>

definition reply_no_job_queue :: string where
  "reply_no_job_queue =
     ''Erro: JobQueue n'' @ a_tilde @ ''o configurado. Contate o administrador.''"

definition reply_started :: string where
  "reply_started = ''Bot iniciado! Voc'' @ e_circ @ '' receber'' @ a_acute @ '' atualiza''
     @ c_cedil @ o_tilde @ ''es sobre asteroides diariamente '' @ a_grave
     @ ''s 10h (hor'' @ a_acute @ ''rio de Bras'' @ i_acute @ ''lia).''"

definition reply_stopped :: string where
  "reply_stopped = ''Envios di'' @ a_acute @ ''rios desativados. Use /start para reativar.''"

definition reply_not_active :: string where
  "reply_not_active = ''Nenhum envio di'' @ a_acute @ ''rio ativo para este chat.''"

subsection \<open>The subscriber table\<close>

text \<open>\<^verbatim>\<open>add_subscriber\<close>: insert a row; a failure is logged and swallowed.\<close>

definition add_subscriber :: "env \<Rightarrow> int \<Rightarrow> world \<Rightarrow> world" where
  "add_subscriber e chat_id w =
     (if insert_ok e then w\<lparr>store := store w @ [chat_id]\<rparr>
      else log_error (ErrorExn ''Erro ao adicionar inscrito: '' StoreError) w)"

text \<open>\<^verbatim>\<open>remove_subscriber\<close>: delete every row with this \<^verbatim>\<open>chat_id\<close>.\<close>

definition remove_subscriber :: "env \<Rightarrow> int \<Rightarrow> world \<Rightarrow> world" where
  "remove_subscriber e chat_id w =
     (if delete_ok e then w\<lparr>store := filter (\<lambda>c. c \<noteq> chat_id) (store w)\<rparr>
      else log_error (ErrorExn ''Erro ao remover inscrito: '' StoreError) w)"

text \<open>\<^verbatim>\<open>get_subscribers\<close>: the \<^verbatim>\<open>chat_id\<close> of every row, or the empty list on failure.\<close>

definition get_subscribers :: "env \<Rightarrow> world \<Rightarrow> int list \<times> world" where
  "get_subscribers e w =
     (if select_ok e then (store w, w)
      else ([], log_error (ErrorExn ''Erro ao buscar inscritos: '' StoreError) w))"

subsection \<open>Fetching the content\<close>

text \<open>\<^verbatim>\<open>traduzir\<close>: the translation, or the text itself when the translator raises.\<close>

definition traduzir :: "env \<Rightarrow> string \<Rightarrow> world \<Rightarrow> string \<times> world" where
  "traduzir e texto w =
     (case translate e texto of
        Some t \<Rightarrow> (t, w)
      | None \<Rightarrow> (texto, log_error (ErrorExn (''Erro na tradu'' @ c_cedil @ a_tilde @ ''o: '') TranslationError) w))"

definition space_keywords :: "string list" where
  "space_keywords = [''galaxy'', ''nebula'', ''saturn'', ''jupiter'', ''apollo'', ''earth'',
     ''star'', ''sun'', ''planet'', ''asteroid'', ''space'']"

definition image_url :: "string \<Rightarrow> string" where
  "image_url query = ''https://images-api.nasa.gov/search?q='' @ query @ ''&media_type=image''"

text \<open>\<^verbatim>\<open>data.get("collection", {}).get("items", [])\<close>\<close>

definition image_items :: "pyval \<Rightarrow> exn + pyval" where
  "image_items data =
     and_then (dict_get data ''collection'' (PDict [])) (\<lambda>coll. dict_get coll ''items'' (PList []))"

text \<open>\<^verbatim>\<open>imagem["links"][0]["href"]\<close>\<close>

definition image_href :: "pyval \<Rightarrow> exn + pyval" where
  "image_href imagem =
     and_then (getitem imagem ''links'') (\<lambda>links.
     and_then (getitem0 links) (\<lambda>link. getitem link ''href''))"

text \<open>The body of the \<^verbatim>\<open>try\<close> of \<^verbatim>\<open>imagem_espacial_aleatoria\<close>: the value returned and
  the world after it, or the exception raised.\<close>

definition imagem_try :: "env \<Rightarrow> world \<Rightarrow> exn + (pyval \<times> world)" where
  "imagem_try e w =
     (let query = space_keywords ! (rnd_keyword e mod length space_keywords);
          url = image_url query
      in case http_get e url of
           None \<Rightarrow> Inl RequestException
         | Some res \<Rightarrow>
             if status_code res \<noteq> 200 then
               Inr (PNone, log_error (ErrorEntry (''Erro na API da NASA (imagens): '' @ str_int (status_code res))) w)
             else
               (case body res of
                  None \<Rightarrow> Inl JSONDecodeError
                | Some data \<Rightarrow>
                    and_then (image_items data) (\<lambda>items.
                      if \<not> truthy items then Inr (PNone, w)
                      else and_then (choice (rnd_item e) items) (\<lambda>imagem.
                           and_then (image_href imagem) (\<lambda>href. Inr (href, w))))))"

text \<open>\<^verbatim>\<open>imagem_espacial_aleatoria\<close>: the result \<open>PNone\<close> is Python's \<^verbatim>\<open>None\<close>.\<close>

definition imagem_espacial_aleatoria :: "env \<Rightarrow> world \<Rightarrow> pyval \<times> world" where
  "imagem_espacial_aleatoria e w =
     (case imagem_try e w of
        Inr r \<Rightarrow> r
      | Inl ex \<Rightarrow> (PNone, log_error (ErrorExn ''Erro ao buscar imagem: '' ex) w))"

text \<open>\<^verbatim>\<open>float(x)\<close> of an object.\<close>

fun py_float :: "env \<Rightarrow> pyval \<Rightarrow> exn + pyfloat" where
  "py_float e (PFloat f) = Inr f"
| "py_float e (PInt i) = (case int_to_float e i of None \<Rightarrow> Inl OverflowError | Some f \<Rightarrow> Inr f)"
| "py_float e (PBool b) = Inr (Finite (if b then 1 else 0))"
| "py_float e (PStr s) = (case parse_float e s of None \<Rightarrow> Inl ValueError | Some f \<Rightarrow> Inr f)"
| "py_float e _ = Inl TypeError"

text \<open>\<^verbatim>\<open>str(x)\<close>, as the f-string applies it to \<^verbatim>\<open>nome\<close>.\<close>

fun py_str :: "env \<Rightarrow> pyval \<Rightarrow> string" where
  "py_str e (PStr s) = s"
| "py_str e PNone = ''None''"
| "py_str e (PBool b) = (if b then ''True'' else ''False'')"
| "py_str e (PInt i) = str_int i"
| "py_str e v = repr e v"

definition feed_url :: "env \<Rightarrow> string" where
  "feed_url e = ''https://api.nasa.gov/neo/rest/v1/feed?start_date='' @ today e
     @ ''&end_date='' @ today e @ ''&api_key='' @ api_key e"

text \<open>\<^verbatim>\<open>float(asteroide["close_approach_data"][0][k1][k2])\<close>\<close>

definition approach_value :: "env \<Rightarrow> pyval \<Rightarrow> string \<Rightarrow> string \<Rightarrow> exn + pyfloat" where
  "approach_value e asteroide k1 k2 =
     and_then (getitem asteroide ''close_approach_data'') (\<lambda>cad.
     and_then (getitem0 cad) (\<lambda>first.
     and_then (getitem first k1) (\<lambda>d.
     and_then (getitem d k2) (py_float e))))"

text \<open>The f-string \<^verbatim>\<open>msg_original\<close>; its fields are evaluated from left to right.\<close>

definition msg_original :: "env \<Rightarrow> pyval \<Rightarrow> pyfloat \<Rightarrow> pyfloat \<Rightarrow> exn + string" where
  "msg_original e nome distancia velocidade =
     and_then (py_int distancia) (\<lambda>d.
     and_then (py_int velocidade) (\<lambda>v.
       Inr (emoji_earth @ '' Asteroide pr'' @ o_acute @ ''ximo da Terra! '' @ emoji_star @ ''\<newline>\<newline>''
            @ ''Nome: '' @ py_str e nome @ ''\<newline>''
            @ ''Dist'' @ a_circ @ ''ncia aproximada: '' @ format_commas d @ '' km\<newline>''
            @ ''Velocidade: '' @ format_commas v @ '' km/h\<newline>\<newline>'')))"

text \<open>The body of the \<^verbatim>\<open>try\<close> of \<^verbatim>\<open>get_asteroid_message\<close>.\<close>

definition asteroid_try :: "env \<Rightarrow> world \<Rightarrow> exn + (string \<times> world)" where
  "asteroid_try e w =
     (let hoje = today e;
          url = feed_url e
      in case http_get e url of
           None \<Rightarrow> Inl RequestException
         | Some res \<Rightarrow>
             if status_code res \<noteq> 200 then
               Inr (msg_nasa_error, log_error (ErrorEntry (''Erro na API da NASA (asteroides): '' @ str_int (status_code res))) w)
             else
               (case body res of
                  None \<Rightarrow> Inl JSONDecodeError
                | Some data \<Rightarrow>
                    and_then (getitem data ''near_earth_objects'') (\<lambda>neo.
                    and_then (dict_get neo hoje (PList [])) (\<lambda>asteroides.
                      if \<not> truthy asteroides then Inr (msg_no_asteroids, w)
                      else
                        and_then (choice (rnd_asteroid e) asteroides) (\<lambda>asteroide.
                        and_then (getitem asteroide ''name'') (\<lambda>nome.
                        and_then (approach_value e asteroide ''relative_velocity'' ''kilometers_per_hour'') (\<lambda>velocidade.
                        and_then (approach_value e asteroide ''miss_distance'' ''kilometers'') (\<lambda>distancia.
                        and_then (msg_original e nome distancia velocidade) (\<lambda>msg.
                          Inr (traduzir e msg w))))))))))"

text \<open>\<^verbatim>\<open>get_asteroid_message\<close>\<close>

definition get_asteroid_message :: "env \<Rightarrow> world \<Rightarrow> string \<times> world" where
  "get_asteroid_message e w =
     (case asteroid_try e w of
        Inr r \<Rightarrow> r
      | Inl ex \<Rightarrow> (msg_processing_error, log_error (ErrorExn ''Erro ao buscar dados do asteroide: '' ex) w))"

subsection \<open>Delivery\<close>

text \<open>\<^verbatim>\<open>context.bot.send_photo\<close> and \<^verbatim>\<open>context.bot.send_message\<close>: the call is recorded,
  then the transport succeeds or raises.\<close>

definition bot_send :: "env \<Rightarrow> bot_call \<Rightarrow> world \<Rightarrow> exn option \<times> world" where
  "bot_send e call w =
     (if send_ok e then None else Some TransportError, w\<lparr>calls := calls w @ [call]\<rparr>)"

text \<open>\<^verbatim>\<open>send_message\<close>; \<open>context\<close> says whether the argument \<^verbatim>\<open>context\<close> was given. An
  exception of the transport is logged and swallowed.\<close>

definition send_message :: "env \<Rightarrow> int \<Rightarrow> string \<Rightarrow> pyval \<Rightarrow> bool \<Rightarrow> world \<Rightarrow> world" where
  "send_message e chat_id text imagem context w =
     (if \<not> context then
        log_error (ErrorEntry (''Contexto n'' @ a_tilde @ ''o fornecido para send_message'')) w
      else
        let (raised, w') =
              (if truthy imagem
               then bot_send e (SendPhoto chat_id imagem (text @ disclaimer)) w
               else bot_send e (SendMessage chat_id text) w)
        in (case raised of
              None \<Rightarrow> w'
            | Some ex \<Rightarrow>
                log_error (ErrorExn (''Erro ao enviar mensagem para chat_id '' @ str_int chat_id @ '': '') ex) w'))"

text \<open>\<^verbatim>\<open>update.message.reply_text\<close>: no handler guards it, so its exception leaves the
  handler.\<close>

definition reply_text :: "env \<Rightarrow> int \<Rightarrow> string \<Rightarrow> world \<Rightarrow> exn option \<times> world" where
  "reply_text e chat_id text w =
     (if reply_ok e then None else Some TransportError,
      w\<lparr>calls := calls w @ [ReplyText chat_id text]\<rparr>)"

subsection \<open>The job queue\<close>

definition run_daily :: "callback \<Rightarrow> time_of_day \<Rightarrow> int \<Rightarrow> string \<Rightarrow> job list \<Rightarrow> job list" where
  "run_daily cb t d n js =
     js @ [\<lparr>job_callback = cb, job_time = t, job_days = [0, 1, 2, 3, 4, 5, 6],
            job_data = d, job_name = n\<rparr>]"

definition get_jobs_by_name :: "job list \<Rightarrow> string \<Rightarrow> job list" where
  "get_jobs_by_name js n = filter (\<lambda>j. job_name j = n) js"

text \<open>\<^verbatim>\<open>job.schedule_removal()\<close> takes this one job out of the queue.\<close>

definition schedule_removal :: "job \<Rightarrow> job list \<Rightarrow> job list" where
  "schedule_removal j js = remove1 j js"

subsection \<open>The handlers\<close>

text \<open>A handler returns the exception that left it, if any, and the world it leaves.\<close>

definition log_no_job_queue :: string where
  "log_no_job_queue = ''JobQueue n'' @ a_tilde @ ''o est'' @ a_acute @ '' dispon'' @ i_acute
     @ ''vel. Instale python-telegram-bot[job-queue]''"

definition daily_time :: time_of_day where
  "daily_time = \<lparr>hour = 10, minute = 0, utc_offset_hours = - 3\<rparr>"

text \<open>\<^verbatim>\<open>start\<close>, the handler of \<^verbatim>\<open>/start\<close>.\<close>

definition start :: "env \<Rightarrow> int \<Rightarrow> world \<Rightarrow> exn option \<times> world" where
  "start e chat_id w0 =
     (let w1 = add_subscriber e chat_id w0
      in case job_queue w1 of
           None \<Rightarrow>
             reply_text e chat_id reply_no_job_queue (log_error (ErrorEntry log_no_job_queue) w1)
         | Some _ \<Rightarrow>
             let (mensagem, w2) = get_asteroid_message e w1;
                 (imagem, w3) = imagem_espacial_aleatoria e w2;
                 w4 = send_message e chat_id mensagem imagem True w3;
                 (raised, w5) = reply_text e chat_id reply_started w4
             in (case raised of
                   Some ex \<Rightarrow> (Some ex, w5)
                 | None \<Rightarrow>
                     (case job_queue w5 of
                        None \<Rightarrow> (Some AttributeError, w5)
                      | Some js \<Rightarrow>
                          (None, w5\<lparr>job_queue :=
                             Some (run_daily SendPeriodicMessage daily_time chat_id (str_int chat_id) js)\<rparr>))))"

text \<open>\<^verbatim>\<open>stop\<close>, the handler of \<^verbatim>\<open>/stop\<close>. It reads \<^verbatim>\<open>context.job_queue\<close> without the test
  that \<^verbatim>\<open>start\<close> makes.\<close>

definition stop :: "env \<Rightarrow> int \<Rightarrow> world \<Rightarrow> exn option \<times> world" where
  "stop e chat_id w0 =
     (let (subscribers, w1) = get_subscribers e w0
      in if chat_id \<in> set subscribers then
           let w2 = remove_subscriber e chat_id w1
           in case job_queue w2 of
                None \<Rightarrow> (Some AttributeError, w2)
              | Some js \<Rightarrow>
                  let current_jobs = get_jobs_by_name js (str_int chat_id);
                      w3 = w2\<lparr>job_queue := Some (fold schedule_removal current_jobs js)\<rparr>
                  in reply_text e chat_id reply_stopped w3
         else reply_text e chat_id reply_not_active w1)"

text \<open>\<^verbatim>\<open>send_periodic_message\<close>, the callback of the daily job.\<close>

definition send_periodic_message :: "env \<Rightarrow> job \<Rightarrow> world \<Rightarrow> world" where
  "send_periodic_message e j w =
     (let chat_id = job_data j;
          (mensagem, w1) = get_asteroid_message e w;
          (imagem, w2) = imagem_espacial_aleatoria e w1
      in send_message e chat_id mensagem imagem True w2)"

section \<open>A sample environment\<close>

text \<open>One asteroid of the feed, with the fields the script reads.\<close>

definition sample_asteroid :: pyval where
  "sample_asteroid =
     PDict [(''name'', PStr ''(2024 AB)''),
            (''close_approach_data'',
             PList [PDict [(''relative_velocity'', PDict [(''kilometers_per_hour'', PStr ''48123.9'')]),
                           (''miss_distance'', PDict [(''kilometers'', PStr ''1234567.8'')])]])]"

definition sample_feed :: pyval where
  "sample_feed = PDict [(''near_earth_objects'', PDict [(''2024-01-01'', PList [sample_asteroid])])]"

definition sample_images :: pyval where
  "sample_images =
     PDict [(''collection'',
             PDict [(''items'',
                     PList [PDict [(''links'', PList [PDict [(''href'', PStr ''https://images.example/a.jpg'')]])]])])]"

text \<open>Every service answers: the feed has one asteroid for the day, the image search one
  image; only the translator raises, so the message stays as it was written.\<close>

definition sample_env :: env where
  "sample_env =
     \<lparr>today = ''2024-01-01'',
      api_key = ''KEY'',
      http_get = (\<lambda>url. if take 20 url = ''https://api.nasa.gov''
                        then Some \<lparr>status_code = 200, body = Some sample_feed\<rparr>
                        else Some \<lparr>status_code = 200, body = Some sample_images\<rparr>),
      translate = (\<lambda>t. None),
      rnd_asteroid = 7,
      rnd_keyword = 3,
      rnd_item = 5,
      parse_float = (\<lambda>s. if s = ''48123.9'' then Some (Finite (481239 / 10))
                          else if s = ''1234567.8'' then Some (Finite (12345678 / 10))
                          else None),
      int_to_float = (\<lambda>i. Some (Finite (of_int i))),
      repr = (\<lambda>v. ''?''),
      insert_ok = True,
      delete_ok = True,
      select_ok = True,
      send_ok = True,
      reply_ok = True\<rparr>"

text \<open>No service answers: every request raises.\<close>

definition offline_env :: env where
  "offline_env =
     \<lparr>today = ''2024-01-01'',
      api_key = ''KEY'',
      http_get = (\<lambda>url. None),
      translate = (\<lambda>t. None),
      rnd_asteroid = 0,
      rnd_keyword = 0,
      rnd_item = 0,
      parse_float = (\<lambda>s. None),
      int_to_float = (\<lambda>i. None),
      repr = (\<lambda>v. ''?''),
      insert_ok = False,
      delete_ok = False,
      select_ok = False,
      send_ok = False,
      reply_ok = False\<rparr>"

text \<open>The bot just started: nobody subscribed, no job yet.\<close>

definition fresh_world :: world where
  "fresh_world = \<lparr>store = [], job_queue = Some [], log = [], calls = []\<rparr>"

text \<open>The same without the job queue installed.\<close>

definition no_queue_world :: world where
  "no_queue_world = \<lparr>store = [], job_queue = None, log = [], calls = []\<rparr>"

text \<open>Chat \<open>12345\<close> is subscribed and has its daily job.\<close>

definition subscribed_world :: world where
  "subscribed_world =
     \<lparr>store = [12345],
      job_queue = Some [\<lparr>job_callback = SendPeriodicMessage,
                         job_time = \<lparr>hour = 10, minute = 0, utc_offset_hours = - 3\<rparr>,
                         job_days = [0, 1, 2, 3, 4, 5, 6],
                         job_data = 12345,
                         job_name = ''12345''\<rparr>],
      log = [],
      calls = []\<rparr>"

text \<open>The sample environment with a translator that succeeds and answers with the empty
  text.\<close>

definition empty_translation_env :: env where
  "empty_translation_env = sample_env\<lparr>translate := (\<lambda>t. Some [])\<rparr>"

text \<open>The sample environment with an image search whose only item has the number 42
  where the link is expected.\<close>

definition numeric_href_env :: env where
  "numeric_href_env =
     sample_env\<lparr>http_get := (\<lambda>url. Some \<lparr>status_code = 200,
       body = Some (PDict [(''collection'',
                PDict [(''items'',
                  PList [PDict [(''links'', PList [PDict [(''href'', PInt 42)]])]])])])\<rparr>)\<rparr>"

section \<open>Auxiliary facts\<close>

lemma and_then_Inr_iff: "and_then m f = Inr y \<longleftrightarrow> (\<exists>x. m = Inr x \<and> f x = Inr y)"
  by (cases m) (simp_all add: and_then_def)

text \<open>The loop of \<^verbatim>\<open>stop\<close> over the jobs found by name takes exactly these jobs out of the
  queue. The induction carries the part of the queue already passed, which holds no job
  to remove.\<close>

lemma fold_schedule_removal_aux:
  "\<forall>j \<in> set pre. \<not> P j \<Longrightarrow>
   fold schedule_removal (filter P js) (pre @ js) = pre @ filter (\<lambda>j. \<not> P j) js"
proof (induction js arbitrary: pre)
  case Nil
  then show ?case by simp
next
  case (Cons x xs)
  show ?case
  proof (cases "P x")
    case True
    with Cons.prems have "x \<notin> set pre" by auto
    then have "remove1 x (pre @ x # xs) = pre @ xs"
      by (simp add: remove1_append)
    with True Cons.IH [OF Cons.prems] show ?thesis
      by (simp add: schedule_removal_def)
  next
    case False
    with Cons.prems have "\<forall>j \<in> set (pre @ [x]). \<not> P j" by simp
    from Cons.IH [OF this] False show ?thesis by simp
  qed
qed

lemma fold_schedule_removal:
  "fold schedule_removal (filter P js) js = filter (\<lambda>j. \<not> P j) js"
  using fold_schedule_removal_aux [of "[]" P js] by simp

lemma cancel_jobs_by_name:
  "get_jobs_by_name (fold schedule_removal (get_jobs_by_name js n) js) n = []"
  by (simp add: get_jobs_by_name_def fold_schedule_removal)

text \<open>Fetching the content touches the log only.\<close>

lemma asteroid_try_frame:
  "asteroid_try e w = Inr (s, w') \<Longrightarrow>
   store w' = store w \<and> job_queue w' = job_queue w \<and> calls w' = calls w"
  unfolding asteroid_try_def Let_def traduzir_def log_error_def
  by (auto simp: and_then_Inr_iff split: option.splits if_splits)

lemma get_asteroid_message_frame:
  "store (snd (get_asteroid_message e w)) = store w \<and>
   job_queue (snd (get_asteroid_message e w)) = job_queue w \<and>
   calls (snd (get_asteroid_message e w)) = calls w"
proof (cases "asteroid_try e w")
  case (Inl ex)
  then show ?thesis by (simp add: get_asteroid_message_def log_error_def)
next
  case (Inr r)
  then show ?thesis
    using asteroid_try_frame [of e w "fst r" "snd r"]
    by (simp add: get_asteroid_message_def)
qed

lemma imagem_try_frame:
  "imagem_try e w = Inr (v, w') \<Longrightarrow>
   store w' = store w \<and> job_queue w' = job_queue w \<and> calls w' = calls w"
  unfolding imagem_try_def Let_def log_error_def
  by (auto simp: and_then_Inr_iff split: option.splits if_splits)

lemma imagem_espacial_aleatoria_frame:
  "store (snd (imagem_espacial_aleatoria e w)) = store w \<and>
   job_queue (snd (imagem_espacial_aleatoria e w)) = job_queue w \<and>
   calls (snd (imagem_espacial_aleatoria e w)) = calls w"
proof (cases "imagem_try e w")
  case (Inl ex)
  then show ?thesis by (simp add: imagem_espacial_aleatoria_def log_error_def)
next
  case (Inr r)
  then show ?thesis
    using imagem_try_frame [of e w "fst r" "snd r"]
    by (simp add: imagem_espacial_aleatoria_def)
qed

text \<open>Delivery touches the log and the calls only.\<close>

lemma send_message_frame:
  "store (send_message e c t img ctx w) = store w \<and>
   job_queue (send_message e c t img ctx w) = job_queue w"
  by (simp add: send_message_def bot_send_def log_error_def)

lemma add_subscriber_job_queue: "job_queue (add_subscriber e c w) = job_queue w"
  by (simp add: add_subscriber_def log_error_def)

text \<open>What \<^verbatim>\<open>start\<close> leaves in the table and in the queue, and how it ends: the only
  exception that can leave it is the one of \<^verbatim>\<open>reply_text\<close>.\<close>

lemma start_store: "store (snd (start e c w)) = store (add_subscriber e c w)"
  by (simp add: start_def Let_def split_beta reply_text_def log_error_def
      send_message_frame get_asteroid_message_frame imagem_espacial_aleatoria_frame
      split: option.splits)

lemma start_job_queue:
  "job_queue (snd (start e c w)) =
     (case job_queue w of
        None \<Rightarrow> None
      | Some js \<Rightarrow> Some (if reply_ok e
                        then run_daily SendPeriodicMessage daily_time c (str_int c) js
                        else js))"
  by (simp add: start_def Let_def split_beta reply_text_def log_error_def
      send_message_frame get_asteroid_message_frame imagem_espacial_aleatoria_frame
      add_subscriber_job_queue
      split: option.splits)

lemma start_result:
  "fst (start e c w) = (if reply_ok e then None else Some TransportError)"
  by (simp add: start_def Let_def split_beta reply_text_def log_error_def
      send_message_frame get_asteroid_message_frame imagem_espacial_aleatoria_frame
      add_subscriber_job_queue
      split: option.splits)

text \<open>\<^verbatim>\<open>stop\<close> for a subscriber, with the job queue installed.\<close>

lemma stop_subscribed:
  assumes "select_ok e" and "c \<in> set (store w)" and "job_queue w = Some js"
  shows "snd (stop e c w) =
           (remove_subscriber e c w)
             \<lparr>job_queue := Some (fold schedule_removal (get_jobs_by_name js (str_int c)) js),
              calls := calls w @ [ReplyText c reply_stopped]\<rparr>"
  using assms
  by (simp add: stop_def get_subscribers_def remove_subscriber_def reply_text_def
      log_error_def Let_def)

text \<open>The message written from asteroid data is never empty. The body of the \<^verbatim>\<open>try\<close>
  returns one of the two fixed texts or what \<^verbatim>\<open>traduzir\<close> makes of such a message.\<close>

lemma msg_original_nonempty: "msg_original e nome d v = Inr m \<Longrightarrow> m \<noteq> []"
  by (auto simp: msg_original_def and_then_Inr_iff emoji_earth_def)

lemma asteroid_try_result:
  assumes "asteroid_try e w = Inr r"
  shows "fst r = msg_nasa_error \<or> fst r = msg_no_asteroids
       \<or> (\<exists>m. m \<noteq> [] \<and> r = traduzir e m w)"
  using assms
  unfolding asteroid_try_def Let_def
  by (auto simp: and_then_Inr_iff split: option.splits if_splits
      dest: msg_original_nonempty)

lemma traduzir_result:
  "fst (traduzir e m w) = (case translate e m of None \<Rightarrow> m | Some t \<Rightarrow> t)"
  by (simp add: traduzir_def split: option.splits)

text \<open>The sample environment at work: the message for the sample asteroid, left in the
  original because the translator raises. The distance \<open>1234567.8\<close> and the speed
  \<open>48123.9\<close> are truncated and grouped by thousands.\<close>

lemma str_int_12345: "str_int 12345 = ''12345''"
  by (simp add: str_int_def str_nat.simps)

lemma sample_message:
  "fst (get_asteroid_message sample_env fresh_world) =
     emoji_earth @ '' Asteroide pr'' @ o_acute @ ''ximo da Terra! '' @ emoji_star @ ''\<newline>\<newline>''
       @ ''Nome: (2024 AB)\<newline>''
       @ ''Dist'' @ a_circ @ ''ncia aproximada: 1,234,567 km\<newline>''
       @ ''Velocidade: 48,123 km/h\<newline>\<newline>''"
proof -
  have d: "\<lfloor>6172839 / 5 :: rat\<rfloor> = 1234567"
    by (rule floor_unique) simp_all
  have v: "\<lfloor>481239 / 10 :: rat\<rfloor> = 48123"
    by (rule floor_unique) simp_all
  have fd: "format_commas 1234567 = ''1,234,567''"
    by (simp add: format_commas_def str_nat.simps)
  have fv: "format_commas 48123 = ''48,123''"
    by (simp add: format_commas_def str_nat.simps)
  show ?thesis
    by (simp add: get_asteroid_message_def asteroid_try_def feed_url_def sample_env_def
        sample_feed_def sample_asteroid_def and_then_def approach_value_def msg_original_def
        traduzir_def d v fd fv)
qed

section \<open>Subscribing without a job queue\<close>

text \<open>
  C1, as amended. When \<^verbatim>\<open>/start\<close> arrives and the job queue is not installed, the handler
  stores the subscriber (when the insert succeeds), replies with the text that the job
  queue is not configured, and registers no job. It returns before the fetch and the
  delivery: the reply is the only call it issues to the bot, so the subscriber gets no
  asteroid message.
\<close>

theorem start_without_job_queue:
  assumes "job_queue w = None"
  shows "store (snd (start e c w)) = (if insert_ok e then store w @ [c] else store w)
       \<and> calls (snd (start e c w)) = calls w @ [ReplyText c reply_no_job_queue]
       \<and> job_queue (snd (start e c w)) = None"
  using assms
  by (simp add: start_def Let_def add_subscriber_def reply_text_def log_error_def)

theorem start_without_job_queue_witness:
  "job_queue no_queue_world = None
   \<and> store (snd (start sample_env 12345 no_queue_world)) = [12345]
   \<and> calls (snd (start sample_env 12345 no_queue_world)) = [ReplyText 12345 reply_no_job_queue]
   \<and> job_queue (snd (start sample_env 12345 no_queue_world)) = None"
  using start_without_job_queue [of no_queue_world sample_env 12345]
  by (simp add: no_queue_world_def sample_env_def)

text \<open>
  C1 as first stated also has the subscriber receive the immediate message. With every
  service answering and only the job queue missing, chat \<open>12345\<close> is stored and the
  handler issues one call to the bot, the error reply: no photo and no message are sent.
\<close>

theorem start_no_immediate_message_counterexample:
  "job_queue no_queue_world = None
   \<and> store (snd (start sample_env 12345 no_queue_world)) = [12345]
   \<and> calls (snd (start sample_env 12345 no_queue_world)) = [ReplyText 12345 reply_no_job_queue]"
  by (simp add: start_def Let_def add_subscriber_def reply_text_def log_error_def
      no_queue_world_def sample_env_def)

section \<open>Subscribe, then unsubscribe\<close>

text \<open>
  C2. With the job queue installed, an insert that succeeds in \<^verbatim>\<open>/start\<close>, and a select
  and a delete that succeed in \<^verbatim>\<open>/stop\<close>: after \<^verbatim>\<open>/start\<close> then \<^verbatim>\<open>/stop\<close> of chat \<open>c\<close>, the
  list of subscribers does not hold \<open>c\<close> and the queue holds no job named after \<open>c\<close>.
  This holds whatever the content services and the transport do in either handler.
\<close>

theorem subscribe_unsubscribe_round_trip:
  assumes "job_queue w = Some js" and "insert_ok e1" and "select_ok e2" and "delete_ok e2"
  shows "c \<notin> set (fst (get_subscribers e3 (snd (stop e2 c (snd (start e1 c w))))))
       \<and> (\<exists>js'. job_queue (snd (stop e2 c (snd (start e1 c w)))) = Some js'
                \<and> get_jobs_by_name js' (str_int c) = [])"
proof -
  let ?w1 = "snd (start e1 c w)"
  have st: "c \<in> set (store ?w1)"
    using assms(2) by (simp add: start_store add_subscriber_def)
  obtain js1 where q: "job_queue ?w1 = Some js1"
    using assms(1) by (simp add: start_job_queue)
  have w2: "snd (stop e2 c ?w1) =
      (remove_subscriber e2 c ?w1)
        \<lparr>job_queue := Some (fold schedule_removal (get_jobs_by_name js1 (str_int c)) js1),
         calls := calls ?w1 @ [ReplyText c reply_stopped]\<rparr>"
    by (rule stop_subscribed [OF assms(3) st q])
  have "c \<notin> set (store (snd (stop e2 c ?w1)))"
    using assms(4) by (simp add: w2 remove_subscriber_def)
  then have a: "c \<notin> set (fst (get_subscribers e3 (snd (stop e2 c ?w1))))"
    by (simp add: get_subscribers_def)
  have b: "job_queue (snd (stop e2 c ?w1)) =
      Some (fold schedule_removal (get_jobs_by_name js1 (str_int c)) js1)"
    by (simp add: w2)
  from a b cancel_jobs_by_name [of js1 "str_int c"] show ?thesis by simp
qed

theorem subscribe_unsubscribe_round_trip_witness:
  "job_queue fresh_world = Some [] \<and> insert_ok sample_env \<and> select_ok sample_env
   \<and> delete_ok sample_env
   \<and> 12345 \<notin> set (fst (get_subscribers sample_env
        (snd (stop sample_env 12345 (snd (start sample_env 12345 fresh_world))))))
   \<and> (\<exists>js'. job_queue (snd (stop sample_env 12345 (snd (start sample_env 12345 fresh_world))))
          = Some js' \<and> get_jobs_by_name js' (str_int 12345) = [])"
proof -
  have h: "job_queue fresh_world = Some []" "insert_ok sample_env" "select_ok sample_env"
    "delete_ok sample_env"
    by (simp_all add: fresh_world_def sample_env_def)
  from subscribe_unsubscribe_round_trip [OF h, of 12345 sample_env] h show ?thesis by simp
qed

section \<open>The asteroid message\<close>

text \<open>
  C3, as amended. \<^verbatim>\<open>get_asteroid_message\<close> is total and its value a string: no \<^verbatim>\<open>None\<close>,
  no exception. The string is not empty in every outcome but one: when the feed gave an
  asteroid and the translator succeeds with the empty text for the message written, that
  empty text is returned as it is. In particular the string is the fixed processing-error
  text when anything inside the \<^verbatim>\<open>try\<close> raises (the request, the body that is not JSON
  or lacks a field), the fixed NASA-error text when the status is not 200, and the
  message in the original when the translator raises.
\<close>

theorem get_asteroid_message_nonempty:
  "(fst (get_asteroid_message e w) \<noteq> []
      \<or> (\<exists>m. m \<noteq> [] \<and> translate e m = Some []
              \<and> asteroid_try e w = Inr (traduzir e m w)))
   \<and> (\<forall>ex. asteroid_try e w = Inl ex
         \<longrightarrow> fst (get_asteroid_message e w) = msg_processing_error)
   \<and> (\<forall>res. http_get e (feed_url e) = Some res \<and> status_code res \<noteq> 200
         \<longrightarrow> fst (get_asteroid_message e w) = msg_nasa_error)
   \<and> (\<forall>m. translate e m = None \<and> asteroid_try e w = Inr (traduzir e m w)
         \<longrightarrow> fst (get_asteroid_message e w) = m)
   \<and> msg_processing_error \<noteq> [] \<and> msg_nasa_error \<noteq> [] \<and> msg_no_asteroids \<noteq> []"
proof -
  have main: "fst (get_asteroid_message e w) \<noteq> []
      \<or> (\<exists>m. m \<noteq> [] \<and> translate e m = Some []
              \<and> asteroid_try e w = Inr (traduzir e m w))"
  proof (cases "asteroid_try e w")
    case (Inl ex)
    then show ?thesis
      by (simp add: get_asteroid_message_def msg_processing_error_def)
  next
    case (Inr r)
    then have res: "fst (get_asteroid_message e w) = fst r"
      by (simp add: get_asteroid_message_def)
    from asteroid_try_result [OF Inr] consider
        "fst r = msg_nasa_error" | "fst r = msg_no_asteroids"
      | m where "m \<noteq> []" and "r = traduzir e m w"
      by blast
    then show ?thesis
    proof cases
      case 1
      with res show ?thesis by (simp add: msg_nasa_error_def)
    next
      case 2
      with res show ?thesis by (simp add: msg_no_asteroids_def)
    next
      case 3
      show ?thesis
      proof (cases "translate e m")
        case None
        with 3 res show ?thesis by (simp add: traduzir_result)
      next
        case (Some t)
        with 3 res Inr show ?thesis by (cases "t = []") (auto simp: traduzir_result)
      qed
    qed
  qed
  have exn: "\<forall>ex. asteroid_try e w = Inl ex
      \<longrightarrow> fst (get_asteroid_message e w) = msg_processing_error"
    by (simp add: get_asteroid_message_def)
  have status: "\<forall>res. http_get e (feed_url e) = Some res \<and> status_code res \<noteq> 200
      \<longrightarrow> fst (get_asteroid_message e w) = msg_nasa_error"
    by (simp add: get_asteroid_message_def asteroid_try_def)
  have raising: "\<forall>m. translate e m = None \<and> asteroid_try e w = Inr (traduzir e m w)
      \<longrightarrow> fst (get_asteroid_message e w) = m"
    by (simp add: get_asteroid_message_def traduzir_result)
  have texts: "msg_processing_error \<noteq> [] \<and> msg_nasa_error \<noteq> [] \<and> msg_no_asteroids \<noteq> []"
    by (simp add: msg_processing_error_def msg_nasa_error_def msg_no_asteroids_def)
  from main exn status raising texts show ?thesis by blast
qed

theorem get_asteroid_message_nonempty_witness:
  "fst (get_asteroid_message sample_env fresh_world) \<noteq> []
   \<and> fst (get_asteroid_message offline_env fresh_world) = msg_processing_error"
proof -
  have a: "\<not> (\<exists>m. m \<noteq> [] \<and> translate sample_env m = Some []
             \<and> asteroid_try sample_env fresh_world = Inr (traduzir sample_env m fresh_world))"
    by (simp add: sample_env_def)
  have b: "asteroid_try offline_env fresh_world = Inl RequestException"
    by (simp add: asteroid_try_def offline_env_def)
  from get_asteroid_message_nonempty [of sample_env fresh_world]
    get_asteroid_message_nonempty [of offline_env fresh_world] a b
  show ?thesis by blast
qed

text \<open>
  C3 as first stated gives a non-empty string for every upstream outcome. With the feed
  giving the sample asteroid and a translator that succeeds with the empty text, the
  empty string is returned.
\<close>

theorem get_asteroid_message_empty_counterexample:
  "fst (get_asteroid_message empty_translation_env fresh_world) = []"
  by (simp add: get_asteroid_message_def asteroid_try_def feed_url_def
      empty_translation_env_def sample_env_def sample_feed_def sample_asteroid_def
      and_then_def approach_value_def msg_original_def traduzir_def)

text \<open>
  C6. When the feed answers with status 200 and an empty list of asteroids for the day,
  \<^verbatim>\<open>get_asteroid_message\<close> returns the fixed text that no asteroid is near today, and
  logs nothing. The translator plays no part: the result is the same for every
  translator \<open>tr\<close>.
\<close>

theorem no_asteroids_fallback:
  assumes "http_get e (feed_url e) = Some res" and "status_code res = 200"
    and "body res = Some data" and "getitem data ''near_earth_objects'' = Inr neo"
    and "dict_get neo (today e) (PList []) = Inr (PList [])"
  shows "get_asteroid_message (e\<lparr>translate := tr\<rparr>) w = (msg_no_asteroids, w)"
  using assms
  by (simp add: get_asteroid_message_def asteroid_try_def feed_url_def and_then_def)

theorem no_asteroids_fallback_witness:
  "get_asteroid_message
     (sample_env\<lparr>http_get := (\<lambda>url. Some \<lparr>status_code = 200,
         body = Some (PDict [(''near_earth_objects'', PDict [])])\<rparr>),
       translate := (\<lambda>t. Some ''traduzido'')\<rparr>) fresh_world
   = (msg_no_asteroids, fresh_world)"
  using no_asteroids_fallback
    [of "sample_env\<lparr>http_get := (\<lambda>url. Some \<lparr>status_code = 200,
           body = Some (PDict [(''near_earth_objects'', PDict [])])\<rparr>)\<rparr>"
        "\<lparr>status_code = 200, body = Some (PDict [(''near_earth_objects'', PDict [])])\<rparr>"
        "PDict [(''near_earth_objects'', PDict [])]" "PDict []"
        "\<lambda>t. Some ''traduzido''" fresh_world]
  by simp

section \<open>The image\<close>

text \<open>
  C4, as amended. \<^verbatim>\<open>imagem_espacial_aleatoria\<close> is total: it returns a value and raises
  nothing. The value is \<^verbatim>\<open>None\<close> when the request raises, when the status is not 200 or the
  body is not JSON, and when the result set is empty. In every case it is \<^verbatim>\<open>None\<close> or the
  value found at the \<^verbatim>\<open>href\<close> of the first link of the item drawn from the result set:
  that value is returned unchecked, so it is a URL string exactly when the search put one
  there.
\<close>

theorem imagem_espacial_aleatoria_result:
  "(http_get e (image_url (space_keywords ! (rnd_keyword e mod length space_keywords))) = None
      \<longrightarrow> fst (imagem_espacial_aleatoria e w) = PNone)
   \<and> (\<forall>res. http_get e (image_url (space_keywords ! (rnd_keyword e mod length space_keywords)))
              = Some res
            \<and> (status_code res \<noteq> 200 \<or> body res = None)
      \<longrightarrow> fst (imagem_espacial_aleatoria e w) = PNone)
   \<and> (\<forall>res data items.
         http_get e (image_url (space_keywords ! (rnd_keyword e mod length space_keywords)))
           = Some res
         \<and> body res = Some data \<and> image_items data = Inr items \<and> \<not> truthy items
      \<longrightarrow> fst (imagem_espacial_aleatoria e w) = PNone)
   \<and> (fst (imagem_espacial_aleatoria e w) = PNone
      \<or> (\<exists>res data items imagem.
           http_get e (image_url (space_keywords ! (rnd_keyword e mod length space_keywords)))
             = Some res
           \<and> status_code res = 200 \<and> body res = Some data
           \<and> image_items data = Inr items \<and> truthy items
           \<and> choice (rnd_item e) items = Inr imagem
           \<and> image_href imagem = Inr (fst (imagem_espacial_aleatoria e w))))
   \<and> (\<forall>res data items imagem v.
         http_get e (image_url (space_keywords ! (rnd_keyword e mod length space_keywords)))
           = Some res
         \<and> status_code res = 200 \<and> body res = Some data
         \<and> image_items data = Inr items \<and> truthy items
         \<and> choice (rnd_item e) items = Inr imagem
         \<and> image_href imagem = Inr v
      \<longrightarrow> fst (imagem_espacial_aleatoria e w) = v)"
  unfolding imagem_espacial_aleatoria_def imagem_try_def Let_def
  by (auto simp: and_then_def split: option.splits sum.splits if_splits)

theorem imagem_espacial_aleatoria_result_witness:
  "http_get offline_env
     (image_url (space_keywords ! (rnd_keyword offline_env mod length space_keywords))) = None
   \<and> fst (imagem_espacial_aleatoria offline_env fresh_world) = PNone
   \<and> fst (imagem_espacial_aleatoria sample_env fresh_world) = PStr ''https://images.example/a.jpg''"
  using imagem_espacial_aleatoria_result [of offline_env fresh_world]
    imagem_espacial_aleatoria_result [of sample_env fresh_world]
  by (simp add: offline_env_def sample_env_def imagem_espacial_aleatoria_def imagem_try_def
      space_keywords_def image_url_def image_items_def image_href_def sample_images_def
      and_then_def)

text \<open>
  C4 as first stated gives a URL string or \<^verbatim>\<open>None\<close> for every upstream outcome. With an
  image search that answers with status 200 and one item whose \<^verbatim>\<open>href\<close> is the number 42,
  the number 42 is returned: neither a string nor \<^verbatim>\<open>None\<close>.
\<close>

theorem imagem_espacial_aleatoria_number_counterexample:
  "fst (imagem_espacial_aleatoria numeric_href_env fresh_world) = PInt 42"
  by (simp add: imagem_espacial_aleatoria_def imagem_try_def numeric_href_env_def
      sample_env_def image_items_def image_href_def and_then_def)

section \<open>Delivery\<close>

text \<open>
  C5. \<^verbatim>\<open>send_message\<close>, called with a context as both callers do, is total: whatever the
  transport does, it returns and raises nothing. When the transport fails it adds one
  entry to the error log, which names the chat; when the transport succeeds it adds
  none. The table and the job queue stay as they were.
\<close>

theorem send_message_swallows_failure:
  "(\<not> send_ok e \<longrightarrow>
      log (send_message e c t img True w) =
        log w @ [ErrorExn (''Erro ao enviar mensagem para chat_id '' @ str_int c @ '': '') TransportError])
   \<and> (send_ok e \<longrightarrow> log (send_message e c t img True w) = log w)
   \<and> store (send_message e c t img True w) = store w
   \<and> job_queue (send_message e c t img True w) = job_queue w"
  by (simp add: send_message_def bot_send_def log_error_def)

theorem send_message_swallows_failure_witness:
  "\<not> send_ok offline_env
   \<and> log (send_message offline_env 12345 ''texto'' PNone True fresh_world) =
       [ErrorExn ''Erro ao enviar mensagem para chat_id 12345: '' TransportError]
   \<and> send_ok sample_env
   \<and> log (send_message sample_env 12345 ''texto'' PNone True fresh_world) = []"
proof -
  have h: "\<not> send_ok offline_env" "send_ok sample_env" "log fresh_world = []"
    by (simp_all add: offline_env_def sample_env_def fresh_world_def)
  from send_message_swallows_failure [of offline_env 12345 "''texto''" PNone fresh_world]
    send_message_swallows_failure [of sample_env 12345 "''texto''" PNone fresh_world]
    h str_int_12345 show ?thesis by simp
qed

text \<open>
  C9. \<^verbatim>\<open>send_message\<close> with an image (a value that counts as true) sends it as a photo
  whose caption is the text followed by the note that the image has no relation to the
  asteroid; without an image (\<^verbatim>\<open>None\<close>, or any value that counts as false) it sends the
  text as a plain message.
\<close>

theorem send_message_payload:
  "(truthy img \<longrightarrow>
      calls (send_message e c t img True w) = calls w @ [SendPhoto c img (t @ disclaimer)])
   \<and> (\<not> truthy img \<longrightarrow>
      calls (send_message e c t img True w) = calls w @ [SendMessage c t])
   \<and> calls (send_message e c t PNone True w) = calls w @ [SendMessage c t]"
  by (simp add: send_message_def bot_send_def log_error_def)

theorem send_message_payload_witness:
  "truthy (PStr ''https://images.example/a.jpg'')
   \<and> calls (send_message sample_env 12345 ''texto'' (PStr ''https://images.example/a.jpg'') True
        fresh_world)
       = [SendPhoto 12345 (PStr ''https://images.example/a.jpg'') (''texto'' @ disclaimer)]
   \<and> \<not> truthy PNone
   \<and> calls (send_message sample_env 12345 ''texto'' PNone True fresh_world)
       = [SendMessage 12345 ''texto'']"
proof -
  have h: "truthy (PStr ''https://images.example/a.jpg'')" "\<not> truthy PNone"
    "calls fresh_world = []"
    by (simp_all add: fresh_world_def)
  from send_message_payload
      [of "PStr ''https://images.example/a.jpg''" sample_env 12345 "''texto''" fresh_world]
    h show ?thesis by simp
qed

section \<open>Unsubscribing\<close>

text \<open>
  C7. When chat \<open>c\<close> is not in the list \<^verbatim>\<open>get_subscribers\<close> returns, \<^verbatim>\<open>/stop\<close> replies that
  no daily delivery is active for the chat, and leaves the table and the job queue as
  they were.
\<close>

theorem stop_not_subscribed:
  assumes "c \<notin> set (fst (get_subscribers e w))"
  shows "store (snd (stop e c w)) = store w
       \<and> job_queue (snd (stop e c w)) = job_queue w
       \<and> calls (snd (stop e c w)) = calls w @ [ReplyText c reply_not_active]"
  using assms
  by (simp add: stop_def get_subscribers_def reply_text_def log_error_def split: if_splits)

theorem stop_not_subscribed_witness:
  "999 \<notin> set (fst (get_subscribers sample_env subscribed_world))
   \<and> store (snd (stop sample_env 999 subscribed_world)) = store subscribed_world
   \<and> job_queue (snd (stop sample_env 999 subscribed_world)) = job_queue subscribed_world
   \<and> calls (snd (stop sample_env 999 subscribed_world)) = [ReplyText 999 reply_not_active]"
proof -
  have h: "999 \<notin> set (fst (get_subscribers sample_env subscribed_world))"
    by (simp add: get_subscribers_def sample_env_def subscribed_world_def)
  have c: "calls subscribed_world = []"
    by (simp add: subscribed_world_def)
  from stop_not_subscribed [OF h] h c show ?thesis by simp
qed

text \<open>
  C10. When chat \<open>c\<close> is in the list of subscribers and the job queue is not installed,
  \<^verbatim>\<open>/stop\<close> calls \<^verbatim>\<open>remove_subscriber\<close>, which takes \<open>c\<close> out of the table when the delete
  succeeds, and then the read of the job queue raises \<^verbatim>\<open>AttributeError\<close>, which leaves the
  handler: no job is cancelled and no reply is sent. \<^verbatim>\<open>/start\<close> in the same world does not
  end with that exception, since it tests the job queue first.
\<close>

theorem stop_without_job_queue:
  assumes "c \<in> set (fst (get_subscribers e w))" and "job_queue w = None"
  shows "stop e c w = (Some AttributeError, remove_subscriber e c w)
       \<and> (delete_ok e \<longrightarrow> c \<notin> set (store (snd (stop e c w))))
       \<and> calls (snd (stop e c w)) = calls w
       \<and> job_queue (snd (stop e c w)) = None
       \<and> fst (start e' c w) \<noteq> Some AttributeError"
  using assms
  by (simp add: stop_def get_subscribers_def remove_subscriber_def log_error_def start_result
      split: if_splits)

theorem stop_without_job_queue_witness:
  "12345 \<in> set (fst (get_subscribers sample_env (subscribed_world\<lparr>job_queue := None\<rparr>)))
   \<and> job_queue (subscribed_world\<lparr>job_queue := None\<rparr>) = None
   \<and> stop sample_env 12345 (subscribed_world\<lparr>job_queue := None\<rparr>)
       = (Some AttributeError, \<lparr>store = [], job_queue = None, log = [], calls = []\<rparr>)"
proof -
  have h: "12345 \<in> set (fst (get_subscribers sample_env (subscribed_world\<lparr>job_queue := None\<rparr>)))"
    "job_queue (subscribed_world\<lparr>job_queue := None\<rparr>) = None"
    by (simp_all add: get_subscribers_def sample_env_def subscribed_world_def)
  have r: "remove_subscriber sample_env 12345 (subscribed_world\<lparr>job_queue := None\<rparr>)
      = \<lparr>store = [], job_queue = None, log = [], calls = []\<rparr>"
    by (simp add: remove_subscriber_def sample_env_def subscribed_world_def)
  from stop_without_job_queue [OF h] h r show ?thesis by simp
qed

section \<open>The daily job\<close>

text \<open>
  C8. A \<^verbatim>\<open>/start\<close> that finds the job queue and returns without an exception adds exactly
  one job to the queue: it runs \<^verbatim>\<open>send_periodic_message\<close> every day of the week at 10:00
  in the time zone UTC-3, carries the chat identifier as its data, and is named by the
  decimal text of the chat identifier. This is the name \<^verbatim>\<open>/stop\<close> looks jobs up by, so
  the lookup finds the new job.
\<close>

theorem start_registers_daily_job:
  assumes "job_queue w = Some js" and "fst (start e c w) = None"
  shows "job_queue (snd (start e c w)) =
           Some (js @ [\<lparr>job_callback = SendPeriodicMessage,
                        job_time = \<lparr>hour = 10, minute = 0, utc_offset_hours = - 3\<rparr>,
                        job_days = [0, 1, 2, 3, 4, 5, 6],
                        job_data = c,
                        job_name = str_int c\<rparr>])
       \<and> get_jobs_by_name (the (job_queue (snd (start e c w)))) (str_int c) =
           get_jobs_by_name js (str_int c)
             @ [\<lparr>job_callback = SendPeriodicMessage,
                 job_time = \<lparr>hour = 10, minute = 0, utc_offset_hours = - 3\<rparr>,
                 job_days = [0, 1, 2, 3, 4, 5, 6],
                 job_data = c,
                 job_name = str_int c\<rparr>]"
proof -
  from assms(2) have "reply_ok e"
    by (simp add: start_result split: if_splits)
  with assms(1) show ?thesis
    by (simp add: start_job_queue run_daily_def daily_time_def get_jobs_by_name_def)
qed

theorem start_registers_daily_job_witness:
  "job_queue fresh_world = Some [] \<and> fst (start sample_env 12345 fresh_world) = None
   \<and> job_queue (snd (start sample_env 12345 fresh_world)) =
           Some [\<lparr>job_callback = SendPeriodicMessage,
                  job_time = \<lparr>hour = 10, minute = 0, utc_offset_hours = - 3\<rparr>,
                  job_days = [0, 1, 2, 3, 4, 5, 6],
                  job_data = 12345,
                  job_name = ''12345''\<rparr>]"
proof -
  have h: "job_queue fresh_world = Some []" "fst (start sample_env 12345 fresh_world) = None"
    by (simp_all add: fresh_world_def start_result sample_env_def)
  from start_registers_daily_job [OF h] h str_int_12345 show ?thesis by simp
qed

end
